theory Spec2Isabelle
  imports Main "HOL-Library.Sublist"
begin

section \<open>Python values\<close>

text \<open>
  The handlers of the repository receive JSON-like dictionaries. A value is one of the
  scalars below; a dictionary is a map from keys to values. \<open>py_str\<close> is Python's
  \<^verbatim>\<open>str()\<close>, which is what an f-string applies to a value it interpolates.
\<close>

datatype pyval = PyNone | PyStr string | PyBool bool | PyInt int

type_synonym pydict = "string \<rightharpoonup> pyval"

definition digit_char :: "nat \<Rightarrow> char" where
  "digit_char d = char_of (of_char (CHR ''0'') + d)"

function str_nat :: "nat \<Rightarrow> string" where
  "str_nat n = (if n < 10 then [digit_char n] else str_nat (n div 10) @ [digit_char (n mod 10)])"
  by pat_completeness auto
termination
  by (relation "measure id") auto

definition str_int :: "int \<Rightarrow> string" where
  "str_int i = (if i < 0 then CHR ''-'' # str_nat (nat (- i)) else str_nat (nat i))"

fun py_str :: "pyval \<Rightarrow> string" where
  "py_str PyNone = ''None''"
| "py_str (PyStr s) = s"
| "py_str (PyBool b) = (if b then ''True'' else ''False'')"
| "py_str (PyInt i) = str_int i"

text \<open>\<^verbatim>\<open>d.get(key, default)\<close>; \<^verbatim>\<open>d.get(key)\<close> is \<open>dict_get d key PyNone\<close>.\<close>

definition dict_get :: "pydict \<Rightarrow> string \<Rightarrow> pyval \<Rightarrow> pyval" where
  "dict_get d key dflt = (case d key of Some v \<Rightarrow> v | None \<Rightarrow> dflt)"


section \<open>The Slack message handler (integrations/slack\_bot.py)\<close>

text \<open>
  \<^verbatim>\<open>handle_message(message, say, logger)\<close> touches the outside world only through
  the two capabilities it is handed. The model returns the calls it makes, in order:
  \<open>LoggerInfo s\<close> for \<^verbatim>\<open>logger.info(s)\<close> and \<open>Say s\<close> for \<^verbatim>\<open>say(s)\<close>.
\<close>

datatype effect = LoggerInfo string | Say string

definition handle_message :: "pydict \<Rightarrow> effect list" where
  "handle_message message =
     (let text = dict_get message ''text'' (PyStr '''');
          user = dict_get message ''user'' PyNone
      in [LoggerInfo (''Received message from '' @ py_str user @ '': '' @ py_str text),
          Say (''Message received: '' @ py_str text)])"

section \<open>The configuration record (config.py)\<close>

text \<open>
  \<^verbatim>\<open>Settings\<close> is a pydantic-settings class of thirteen fields. The fields annotated
  \<^verbatim>\<open>Optional[str]\<close> are \<open>string option\<close>, the fields annotated \<^verbatim>\<open>str\<close> are \<open>string\<close>.
\<close>

record Settings =
  SUPABASE_URL :: "string option"
  SUPABASE_SERVICE_KEY :: "string option"
  DATABASE_URL :: "string option"
  ANTHROPIC_API_KEY :: "string option"
  SLACK_BOT_TOKEN :: "string option"
  SLACK_APP_TOKEN :: "string option"
  SLACK_SIGNING_SECRET :: "string option"
  AWS_ACCESS_KEY_ID :: "string option"
  AWS_SECRET_ACCESS_KEY :: "string option"
  AWS_REGION :: string
  SES_EMAIL_ADDRESS :: "string option"
  SECRET_KEY :: string
  ENVIRONMENT :: string

text \<open>The declared default of every field.\<close>

definition Settings_defaults :: Settings where
  "Settings_defaults =
     \<lparr> SUPABASE_URL = Some '''',
       SUPABASE_SERVICE_KEY = Some '''',
       DATABASE_URL = Some ''sqlite:///./test.db'',
       ANTHROPIC_API_KEY = Some '''',
       SLACK_BOT_TOKEN = Some '''',
       SLACK_APP_TOKEN = Some '''',
       SLACK_SIGNING_SECRET = Some '''',
       AWS_ACCESS_KEY_ID = Some '''',
       AWS_SECRET_ACCESS_KEY = Some '''',
       AWS_REGION = ''us-east-1'',
       SES_EMAIL_ADDRESS = Some '''',
       SECRET_KEY = ''temporary-secret-key-change-in-production'',
       ENVIRONMENT = ''development'' \<rparr>"

text \<open>The names of the declared fields, in declaration order (\<^verbatim>\<open>Settings.model_fields\<close>).\<close>

definition model_fields :: "string list" where
  "model_fields =
     [''SUPABASE_URL'', ''SUPABASE_SERVICE_KEY'', ''DATABASE_URL'', ''ANTHROPIC_API_KEY'',
      ''SLACK_BOT_TOKEN'', ''SLACK_APP_TOKEN'', ''SLACK_SIGNING_SECRET'',
      ''AWS_ACCESS_KEY_ID'', ''AWS_SECRET_ACCESS_KEY'', ''AWS_REGION'', ''SES_EMAIL_ADDRESS'',
      ''SECRET_KEY'', ''ENVIRONMENT'']"


text \<open>
  \<^verbatim>\<open>settings = Settings()\<close> passes no argument, so every field comes from the sources
  that \<^verbatim>\<open>model_config\<close> selects: the process environment, then the bindings of the
  file \<^verbatim>\<open>.env\<close> when that file exists, then the declared default. With
  \<^verbatim>\<open>"case_sensitive": True\<close> a source is asked for the field's name as declared,
  letter for letter. A value found in a source is a string, which both annotations
  accept, so it is stored as it is; the empty string is a value like any other.

  The environment is a map from names to values. The override file is \<open>None\<close> when
  \<^verbatim>\<open>.env\<close> does not exist and otherwise the list of its bindings in file order; a
  name bound twice has its later value, as in the dictionary the file is read into.
\<close>

type_synonym environ = "string \<rightharpoonup> string"

type_synonym dotenv = "(string \<times> string) list"

definition dotenv_values :: "dotenv \<Rightarrow> environ" where
  "dotenv_values d = map_of (rev d)"

definition source_value :: "environ \<Rightarrow> dotenv option \<Rightarrow> string \<Rightarrow> string option" where
  "source_value env env_file name =
     (case env name of
        Some v \<Rightarrow> Some v
      | None \<Rightarrow> (case env_file of None \<Rightarrow> None | Some d \<Rightarrow> dotenv_values d name))"

definition field_str :: "environ \<Rightarrow> dotenv option \<Rightarrow> string \<Rightarrow> string \<Rightarrow> string" where
  "field_str env env_file name dflt =
     (case source_value env env_file name of Some v \<Rightarrow> v | None \<Rightarrow> dflt)"

text \<open>
  The class sets no \<^verbatim>\<open>extra\<close> policy, so the settings base class keeps its own,
  \<^verbatim>\<open>forbid\<close>: a binding of the override file whose name is no declared field (and
  whose value is not empty) is handed to validation as an extra input, and validation
  refuses it. Names of the process environment that are no declared field are never
  looked at. This refusal is the only way construction raises.
\<close>

definition extra_inputs :: "dotenv \<Rightarrow> string list" where
  "extra_inputs d =
     filter (\<lambda>name. name \<notin> set model_fields \<and> dotenv_values d name \<noteq> Some '''') (map fst d)"

datatype error = ValidationError

definition Settings_init :: "environ \<Rightarrow> dotenv option \<Rightarrow> error + Settings" where
  "Settings_init env env_file =
     (if (case env_file of None \<Rightarrow> False | Some d \<Rightarrow> extra_inputs d \<noteq> [])
      then Inl ValidationError
      else Inr
       \<lparr> SUPABASE_URL = Some (field_str env env_file ''SUPABASE_URL'' ''''),
         SUPABASE_SERVICE_KEY = Some (field_str env env_file ''SUPABASE_SERVICE_KEY'' ''''),
         DATABASE_URL = Some (field_str env env_file ''DATABASE_URL'' ''sqlite:///./test.db''),
         ANTHROPIC_API_KEY = Some (field_str env env_file ''ANTHROPIC_API_KEY'' ''''),
         SLACK_BOT_TOKEN = Some (field_str env env_file ''SLACK_BOT_TOKEN'' ''''),
         SLACK_APP_TOKEN = Some (field_str env env_file ''SLACK_APP_TOKEN'' ''''),
         SLACK_SIGNING_SECRET = Some (field_str env env_file ''SLACK_SIGNING_SECRET'' ''''),
         AWS_ACCESS_KEY_ID = Some (field_str env env_file ''AWS_ACCESS_KEY_ID'' ''''),
         AWS_SECRET_ACCESS_KEY = Some (field_str env env_file ''AWS_SECRET_ACCESS_KEY'' ''''),
         AWS_REGION = field_str env env_file ''AWS_REGION'' ''us-east-1'',
         SES_EMAIL_ADDRESS = Some (field_str env env_file ''SES_EMAIL_ADDRESS'' ''''),
         SECRET_KEY =
           field_str env env_file ''SECRET_KEY'' ''temporary-secret-key-change-in-production'',
         ENVIRONMENT = field_str env env_file ''ENVIRONMENT'' ''development'' \<rparr>)"




section \<open>The HTTP service (main.py)\<close>

text \<open>
  A request is what the ASGI server hands to the application: method, path, the header
  list with names in lower case, and the body. A response has a status code, headers
  (a map from lower-case names to values, as the framework stores them) and a content.
  A JSON object whose members are strings is the list of its members in order.
\<close>

type_synonym json = "(string \<times> string) list"

datatype content = JSON json | PlainText string

record request =
  req_method :: string
  path :: string
  headers :: "(string \<times> string) list"
  body :: string

record response =
  status_code :: nat
  resp_headers :: "string \<rightharpoonup> string"
  content :: content

subsection \<open>The two endpoints\<close>

text \<open>
  \<^verbatim>\<open>health_check\<close> receives the session that the dependency \<^verbatim>\<open>get_db\<close> acquired. The
  session is the state a query would act on, so the model returns it next to the body.
\<close>

definition root :: json where
  "root = [(''message'', ''AI Concierge API''), (''status'', ''running'')]"

definition health_check :: "'db \<Rightarrow> json \<times> 'db" where
  "health_check db = ([(''status'', ''healthy''), (''database'', ''connected'')], db)"

text \<open>
  The framework encodes the dictionary an endpoint returns as a JSON response with the
  route's status code, 200 for both routes. Headers derived from the encoded bytes
  (the content length) are left out.
\<close>

definition JSONResponse :: "json \<Rightarrow> nat \<Rightarrow> response" where
  "JSONResponse j code =
     \<lparr> status_code = code,
       resp_headers = [''content-type'' \<mapsto> ''application/json''],
       content = JSON j \<rparr>"

definition PlainTextResponse :: "string \<Rightarrow> nat \<Rightarrow> (string \<rightharpoonup> string) \<Rightarrow> response" where
  "PlainTextResponse txt code hdrs =
     \<lparr> status_code = code,
       resp_headers = hdrs(''content-type'' \<mapsto> ''text/plain; charset=utf-8''),
       content = PlainText txt \<rparr>"

text \<open>
  The router serves the two routes that main.py declares. \<^verbatim>\<open>get_db\<close> lives in
  \<^verbatim>\<open>app.database\<close>; its outcome for the request is the parameter \<open>get_db\<close>, either
  an exception or a session. An exception of the dependency is not caught by the route.
  Every other request goes to what the framework itself provides (its documentation
  routes and its not-found and method-not-allowed answers), the parameter \<open>other\<close>.
\<close>

definition router ::
  "(request \<Rightarrow> response) \<Rightarrow> ('e + 'db) \<Rightarrow> request \<Rightarrow> 'e + response" where
  "router other get_db req =
     (if req_method req = ''GET'' \<and> path req = ''/'' then Inr (JSONResponse root 200)
      else if req_method req = ''GET'' \<and> path req = ''/health'' then
        (case get_db of
           Inl exn \<Rightarrow> Inl exn
         | Inr db \<Rightarrow> Inr (JSONResponse (fst (health_check db)) 200))
      else Inr (other req))"

definition not_found :: "request \<Rightarrow> response" where
  "not_found req = JSONResponse [(''detail'', ''Not Found'')] 404"

subsection \<open>The cross-origin middleware as main.py configures it\<close>

text \<open>
  \<^verbatim>\<open>app.add_middleware(CORSMiddleware, allow_origins=["*"], allow_credentials=True,
  allow_methods=["*"], allow_headers=["*"])\<close>. The arguments are the constants
  below; the flags and header tables are what the middleware's constructor derives
  from them. No origin pattern and no exposed headers are given, and the maximal age
  keeps its default of 600.

  The middleware is the framework's, and the repository pins no release of it.
  Releases differ in four details that the configuration does not decide. They are
  the fields of \<open>release\<close>: the methods that \<^verbatim>\<open>"*"\<close> in \<^verbatim>\<open>allow_methods\<close> stands for;
  for which requests an ordinary response names the request's own origin in place of
  the wildcard; whether the response to a request without an \<^verbatim>\<open>Origin\<close> header gets
  a \<^verbatim>\<open>Vary\<close> header; and which failures a preflight request can have besides a
  refused origin and a refused method. Every property below is proved for every
  release.
\<close>

record release =
  ALL_METHODS :: "string list"
  explicit_origin :: "(string \<times> string) list \<Rightarrow> bool"
  vary_without_origin :: bool
  further_failures :: "(string \<times> string) list \<Rightarrow> string list"

definition allow_origins :: "string list" where
  "allow_origins = [''*'']"

definition allow_credentials :: bool where
  "allow_credentials = True"

definition allow_methods :: "release \<Rightarrow> string list" where
  "allow_methods rel = (if ''*'' \<in> set [''*''] then ALL_METHODS rel else [''*''])"

definition allow_all_origins :: bool where
  "allow_all_origins = (''*'' \<in> set allow_origins)"

definition preflight_explicit_allow_origin :: bool where
  "preflight_explicit_allow_origin = (\<not> allow_all_origins \<or> allow_credentials)"

fun join :: "string \<Rightarrow> string list \<Rightarrow> string" where
  "join sep [] = []"
| "join sep [x] = x"
| "join sep (x # y # ys) = x @ sep @ join sep (y # ys)"

definition simple_headers :: "string \<rightharpoonup> string" where
  "simple_headers =
     (let h0 = Map.empty;
          h1 = (if allow_all_origins then h0(''access-control-allow-origin'' \<mapsto> ''*'') else h0)
      in if allow_credentials then h1(''access-control-allow-credentials'' \<mapsto> ''true'') else h1)"

definition preflight_headers :: "release \<Rightarrow> (string \<rightharpoonup> string)" where
  "preflight_headers rel =
     (let h0 = (if preflight_explicit_allow_origin then [''vary'' \<mapsto> ''Origin'']
                else [''access-control-allow-origin'' \<mapsto> ''*'']);
          h1 = h0(''access-control-allow-methods'' \<mapsto> join '', '' (allow_methods rel),
                  ''access-control-max-age'' \<mapsto> ''600'')
      in if allow_credentials then h1(''access-control-allow-credentials'' \<mapsto> ''true'') else h1)"

definition is_allowed_origin :: "string \<Rightarrow> bool" where
  "is_allowed_origin origin = (if allow_all_origins then True else origin \<in> set allow_origins)"

text \<open>
  The answer to a preflight request. \<^verbatim>\<open>allow_headers\<close> contains \<^verbatim>\<open>"*"\<close>, so the
  requested headers are mirrored back when the request names any, and the branch that
  checks them one by one is never entered.
\<close>

definition preflight_response ::
  "release \<Rightarrow> (string \<times> string) list \<Rightarrow> string \<Rightarrow> string \<Rightarrow> string option \<Rightarrow> response" where
  "preflight_response rel request_headers requested_origin requested_method requested_headers =
     (let h0 = preflight_headers rel;
          h1 = (if is_allowed_origin requested_origin \<and> preflight_explicit_allow_origin
                then h0(''access-control-allow-origin'' \<mapsto> requested_origin) else h0);
          failures = (if is_allowed_origin requested_origin then [] else [''origin''])
                     @ (if requested_method \<notin> set (allow_methods rel) then [''method''] else [])
                     @ further_failures rel request_headers;
          h2 = (case requested_headers of
                  Some hs \<Rightarrow> h1(''access-control-allow-headers'' \<mapsto> hs)
                | None \<Rightarrow> h1)
      in if failures \<noteq> [] then PlainTextResponse (''Disallowed CORS '' @ join '', '' failures) 400 h2
         else PlainTextResponse ''OK'' 200 h2)"

definition add_vary_header :: "string \<Rightarrow> (string \<rightharpoonup> string) \<Rightarrow> (string \<rightharpoonup> string)" where
  "add_vary_header vary hdrs =
     (case hdrs ''vary'' of
        Some existing \<Rightarrow> hdrs(''vary'' \<mapsto> join '', '' [existing, vary])
      | None \<Rightarrow> hdrs(''vary'' \<mapsto> vary))"

definition allow_explicit_origin :: "string \<Rightarrow> (string \<rightharpoonup> string) \<Rightarrow> (string \<rightharpoonup> string)" where
  "allow_explicit_origin origin hdrs =
     add_vary_header ''Origin'' (hdrs(''access-control-allow-origin'' \<mapsto> origin))"

text \<open>What the middleware does to the response of the wrapped application.\<close>

definition send :: "release \<Rightarrow> (string \<times> string) list \<Rightarrow> string \<Rightarrow> response \<Rightarrow> response" where
  "send rel request_headers origin resp =
     (let hdrs = resp_headers resp ++ simple_headers;
          hdrs' = (if allow_all_origins \<and> explicit_origin rel request_headers
                   then allow_explicit_origin origin hdrs
                   else if \<not> allow_all_origins \<and> is_allowed_origin origin
                   then allow_explicit_origin origin hdrs
                   else hdrs)
      in resp\<lparr>resp_headers := hdrs'\<rparr>)"

definition send_without_origin :: "release \<Rightarrow> response \<Rightarrow> response" where
  "send_without_origin rel resp =
     (if vary_without_origin rel
      then resp\<lparr>resp_headers := add_vary_header ''Origin'' (resp_headers resp)\<rparr>
      else resp)"

text \<open>
  The middleware itself: the response to a request without an \<^verbatim>\<open>Origin\<close> header is
  that of the wrapped application, with at most a \<^verbatim>\<open>Vary\<close> header added; a preflight
  request is answered by the middleware; any other request goes to the wrapped
  application and its response passes through \<open>send\<close>. An exception of the wrapped
  application passes through the middleware.
\<close>

definition CORSMiddleware ::
  "release \<Rightarrow> (request \<Rightarrow> 'e + response) \<Rightarrow> request \<Rightarrow> 'e + response" where
  "CORSMiddleware rel app req =
     (case map_of (headers req) ''origin'' of
        None \<Rightarrow>
          (case app req of
             Inl exn \<Rightarrow> Inl exn
           | Inr resp \<Rightarrow> Inr (send_without_origin rel resp))
      | Some origin \<Rightarrow>
          (case (if req_method req = ''OPTIONS''
                 then map_of (headers req) ''access-control-request-method'' else None) of
             Some requested_method \<Rightarrow>
               Inr (preflight_response rel (headers req) origin requested_method
                      (map_of (headers req) ''access-control-request-headers''))
           | None \<Rightarrow>
               (case app req of
                  Inl exn \<Rightarrow> Inl exn
                | Inr resp \<Rightarrow> Inr (send rel (headers req) origin resp))))"

text \<open>
  The framework puts its server-error middleware outside every middleware the
  application adds: an exception that reaches it becomes a plain 500 response.
\<close>

definition ServerErrorMiddleware :: "(request \<Rightarrow> 'e + response) \<Rightarrow> request \<Rightarrow> response" where
  "ServerErrorMiddleware app req =
     (case app req of
        Inl exn \<Rightarrow> PlainTextResponse ''Internal Server Error'' 500 Map.empty
      | Inr resp \<Rightarrow> resp)"

text \<open>The application: the router inside the two middlewares.\<close>

definition app :: "release \<Rightarrow> (request \<Rightarrow> response) \<Rightarrow> ('e + 'db) \<Rightarrow> request \<Rightarrow> response" where
  "app rel other get_db = ServerErrorMiddleware (CORSMiddleware rel (router other get_db))"

text \<open>
  One release, for concrete runs: seven methods, the origin named when the request
  has a cookie, no \<^verbatim>\<open>Vary\<close> header without \<^verbatim>\<open>Origin\<close>, no further preflight check.
\<close>

definition has_cookie :: "(string \<times> string) list \<Rightarrow> bool" where
  "has_cookie request_headers = (map_of request_headers ''cookie'' \<noteq> None)"

definition no_failures :: "(string \<times> string) list \<Rightarrow> string list" where
  "no_failures request_headers = []"

definition release_0_46 :: release where
  "release_0_46 =
     \<lparr> ALL_METHODS = [''DELETE'', ''GET'', ''HEAD'', ''OPTIONS'', ''PATCH'', ''POST'', ''PUT''],
       explicit_origin = has_cookie,
       vary_without_origin = False,
       further_failures = no_failures \<rparr>"


section \<open>The message handler acknowledges every message\<close>

lemma sublist_middle: "sublist u (p @ u @ q)"
  by (rule sublist_appendI)

lemma sublist_end: "sublist t (p @ t)"
  using sublist_appendI [of t p "[]"] by simp

lemma handle_message_trace:
  "handle_message message =
     [LoggerInfo (''Received message from '' @ py_str (dict_get message ''user'' PyNone) @ '': ''
                    @ py_str (dict_get message ''text'' (PyStr ''''))),
      Say (''Message received: '' @ py_str (dict_get message ''text'' (PyStr '''')))]"
  by (simp add: handle_message_def Let_def)

lemma text_given:
  "message ''text'' = Some (PyStr T) \<Longrightarrow> py_str (dict_get message ''text'' (PyStr '''')) = T"
  by (simp add: dict_get_def)

lemma text_absent:
  "message ''text'' = None \<Longrightarrow> py_str (dict_get message ''text'' (PyStr '''')) = ''''"
  by (simp add: dict_get_def)

text \<open>
  C1. For a message whose text is the string \<open>T\<close>, or that has no text (then \<open>T\<close> is
  empty), whatever its sender, the handler makes exactly two calls: one
  \<^verbatim>\<open>logger.info\<close> whose line contains the sender (\<^verbatim>\<open>None\<close> when there is none) and
  \<open>T\<close>, then one \<^verbatim>\<open>say\<close> with \<^verbatim>\<open>"Message received: "\<close> followed by \<open>T\<close>.
\<close>

theorem handle_message_ack:
  assumes "message ''text'' = Some (PyStr T) \<or> (message ''text'' = None \<and> T = '''')"
  shows "handle_message message =
           [LoggerInfo (''Received message from '' @ py_str (dict_get message ''user'' PyNone)
                          @ '': '' @ T),
            Say (''Message received: '' @ T)]
         \<and> sublist (py_str (dict_get message ''user'' PyNone))
              (''Received message from '' @ py_str (dict_get message ''user'' PyNone) @ '': '' @ T)
         \<and> sublist T
              (''Received message from '' @ py_str (dict_get message ''user'' PyNone) @ '': '' @ T)"
proof -
  let ?u = "py_str (dict_get message ''user'' PyNone)"
  let ?line = "''Received message from '' @ ?u @ '': '' @ T"
  from assms have t: "py_str (dict_get message ''text'' (PyStr '''')) = T"
    using text_given text_absent by blast
  have "handle_message message = [LoggerInfo ?line, Say (''Message received: '' @ T)]"
    unfolding handle_message_trace t ..
  moreover have "sublist ?u ?line"
    by (rule sublist_middle)
  moreover have "sublist T ?line"
    using sublist_end [of T "''Received message from '' @ ?u @ '': ''"] by simp
  ultimately show ?thesis by blast
qed

theorem handle_message_ack_witness:
  "handle_message [''text'' \<mapsto> PyStr ''hello'', ''user'' \<mapsto> PyStr ''U42'']
     = [LoggerInfo ''Received message from U42: hello'', Say ''Message received: hello'']
   \<and> handle_message [''user'' \<mapsto> PyStr ''U42'']
     = [LoggerInfo ''Received message from U42: '', Say ''Message received: '']
   \<and> handle_message [''text'' \<mapsto> PyStr ''hello'']
     = [LoggerInfo ''Received message from None: hello'', Say ''Message received: hello'']"
  using handle_message_ack [of "[''text'' \<mapsto> PyStr ''hello'', ''user'' \<mapsto> PyStr ''U42'']" "''hello''"]
        handle_message_ack [of "[''user'' \<mapsto> PyStr ''U42'']" "''''"]
        handle_message_ack [of "[''text'' \<mapsto> PyStr ''hello'']" "''hello''"]
  by (simp add: dict_get_def)

text \<open>
  C9. The empty-string fallback is for a missing \<^verbatim>\<open>"text"\<close> key only: when the key is
  there and maps to \<^verbatim>\<open>None\<close>, the reply is \<^verbatim>\<open>"Message received: None"\<close>, and the log
  line ends in \<^verbatim>\<open>None\<close> as well.
\<close>

theorem handle_message_text_None:
  "handle_message (message(''text'' \<mapsto> PyNone)) =
     [LoggerInfo (''Received message from '' @ py_str (dict_get message ''user'' PyNone)
                    @ '': None''),
      Say ''Message received: None'']
   \<and> Say ''Message received: '' \<notin> set (handle_message (message(''text'' \<mapsto> PyNone)))"
  by (simp add: handle_message_def dict_get_def)


section \<open>What the configuration record holds\<close>







text \<open>
  C2. With an empty environment and no override file, construction raises nothing and
  the record holds the declared default in each of the thirteen fields: the empty
  string everywhere except \<^verbatim>\<open>sqlite:///./test.db\<close> for the database URL,
  \<^verbatim>\<open>us-east-1\<close> for the region, the placeholder for the secret key and
  \<^verbatim>\<open>development\<close> for the environment name.
\<close>

theorem Settings_no_sources:
  "Settings_init Map.empty None =
     Inr \<lparr> SUPABASE_URL = Some '''',
           SUPABASE_SERVICE_KEY = Some '''',
           DATABASE_URL = Some ''sqlite:///./test.db'',
           ANTHROPIC_API_KEY = Some '''',
           SLACK_BOT_TOKEN = Some '''',
           SLACK_APP_TOKEN = Some '''',
           SLACK_SIGNING_SECRET = Some '''',
           AWS_ACCESS_KEY_ID = Some '''',
           AWS_SECRET_ACCESS_KEY = Some '''',
           AWS_REGION = ''us-east-1'',
           SES_EMAIL_ADDRESS = Some '''',
           SECRET_KEY = ''temporary-secret-key-change-in-production'',
           ENVIRONMENT = ''development'' \<rparr>"
  by (simp add: Settings_init_def field_str_def source_value_def)

text \<open>
  C3, as the specification states it, fails: the region is whatever a source supplies,
  and a source may supply the empty string. With \<^verbatim>\<open>AWS_REGION\<close> set to the empty
  string in the environment the record is built and its region is empty.
\<close>

theorem region_empty_counterexample:
  "Settings_init [''AWS_REGION'' \<mapsto> ''''] None = Inr (Settings_defaults\<lparr>AWS_REGION := ''''\<rparr>)
   \<and> AWS_REGION (Settings_defaults\<lparr>AWS_REGION := ''''\<rparr>) = ''''"
  by (simp add: Settings_init_def field_str_def source_value_def Settings_defaults_def)

lemma Settings_init_region:
  "Settings_init env env_file = Inr s \<Longrightarrow>
     AWS_REGION s = field_str env env_file ''AWS_REGION'' ''us-east-1''"
  by (auto simp: Settings_init_def split: if_splits)

lemma Settings_init_accepts:
  "\<not> (case env_file of None \<Rightarrow> False | Some d \<Rightarrow> extra_inputs d \<noteq> []) \<Longrightarrow>
     \<exists>s. Settings_init env env_file = Inr s"
  by (simp add: Settings_init_def)

lemma Settings_init_refuses:
  "(case env_file of None \<Rightarrow> False | Some d \<Rightarrow> extra_inputs d \<noteq> []) \<Longrightarrow>
     Settings_init env env_file = Inl ValidationError"
  by (simp add: Settings_init_def)

text \<open>
  C3, amended. Whenever a record is loaded, its region is the value that the sources
  supply for \<^verbatim>\<open>AWS_REGION\<close> (the environment first, then the override file), and
  \<^verbatim>\<open>us-east-1\<close> when they supply none. So the region is not empty unless the
  supplied value is the empty string, and then it is empty. A record is loaded unless
  the override file holds an extra input.
\<close>

theorem region_supplied_or_default:
  "(\<exists>s. Settings_init env env_file = Inr s
       \<and> (source_value env env_file ''AWS_REGION'' = None \<longrightarrow> AWS_REGION s = ''us-east-1'')
       \<and> (\<forall>v. source_value env env_file ''AWS_REGION'' = Some v \<longrightarrow> AWS_REGION s = v)
       \<and> (source_value env env_file ''AWS_REGION'' \<noteq> Some '''' \<longrightarrow> AWS_REGION s \<noteq> '''')
       \<and> (source_value env env_file ''AWS_REGION'' = Some '''' \<longrightarrow> AWS_REGION s = ''''))
   \<or> (\<exists>d. env_file = Some d \<and> extra_inputs d \<noteq> []
           \<and> Settings_init env env_file = Inl ValidationError)"
proof (cases "case env_file of None \<Rightarrow> False | Some d \<Rightarrow> extra_inputs d \<noteq> []")
  case True
  then obtain d where "env_file = Some d" "extra_inputs d \<noteq> []"
    by (cases env_file) simp_all
  moreover from True have "Settings_init env env_file = Inl ValidationError"
    by (rule Settings_init_refuses)
  ultimately have "\<exists>d. env_file = Some d \<and> extra_inputs d \<noteq> []
                     \<and> Settings_init env env_file = Inl ValidationError"
    by simp
  then show ?thesis by (rule disjI2)
next
  case False
  then have "\<exists>s. Settings_init env env_file = Inr s"
    by (rule Settings_init_accepts)
  then obtain s where s: "Settings_init env env_file = Inr s" ..
  then have r: "AWS_REGION s = field_str env env_file ''AWS_REGION'' ''us-east-1''"
    by (rule Settings_init_region)
  have "source_value env env_file ''AWS_REGION'' = None \<longrightarrow> AWS_REGION s = ''us-east-1''"
    by (simp add: r field_str_def)
  moreover have "\<forall>v. source_value env env_file ''AWS_REGION'' = Some v \<longrightarrow> AWS_REGION s = v"
    by (simp add: r field_str_def)
  moreover have "source_value env env_file ''AWS_REGION'' \<noteq> Some '''' \<longrightarrow> AWS_REGION s \<noteq> ''''"
    by (cases "source_value env env_file ''AWS_REGION''") (simp_all add: r field_str_def)
  moreover have "source_value env env_file ''AWS_REGION'' = Some '''' \<longrightarrow> AWS_REGION s = ''''"
    by (simp add: r field_str_def)
  ultimately have "Settings_init env env_file = Inr s
       \<and> (source_value env env_file ''AWS_REGION'' = None \<longrightarrow> AWS_REGION s = ''us-east-1'')
       \<and> (\<forall>v. source_value env env_file ''AWS_REGION'' = Some v \<longrightarrow> AWS_REGION s = v)
       \<and> (source_value env env_file ''AWS_REGION'' \<noteq> Some '''' \<longrightarrow> AWS_REGION s \<noteq> '''')
       \<and> (source_value env env_file ''AWS_REGION'' = Some '''' \<longrightarrow> AWS_REGION s = '''')"
    using s by simp
  then show ?thesis by (intro disjI1 exI)
qed

theorem region_supplied_or_default_witness:
  "source_value Map.empty (Some []) ''AWS_REGION'' = None
   \<and> Settings_init Map.empty (Some []) = Inr Settings_defaults
   \<and> AWS_REGION Settings_defaults = ''us-east-1''
   \<and> source_value [''AWS_REGION'' \<mapsto> ''eu-west-1''] (Some [(''AWS_REGION'', '''')]) ''AWS_REGION''
       = Some ''eu-west-1''
   \<and> Settings_init [''AWS_REGION'' \<mapsto> ''eu-west-1''] (Some [(''AWS_REGION'', '''')])
       = Inr (Settings_defaults\<lparr>AWS_REGION := ''eu-west-1''\<rparr>)
   \<and> source_value Map.empty (Some [(''AWS_REGION'', '''')]) ''AWS_REGION'' = Some ''''
   \<and> Settings_init Map.empty (Some [(''AWS_REGION'', '''')])
       = Inr (Settings_defaults\<lparr>AWS_REGION := ''''\<rparr>)"
proof -
  have x: "extra_inputs [] = []" "extra_inputs [(''AWS_REGION'', '''')] = []"
    by (simp_all add: extra_inputs_def model_fields_def)
  have v1: "source_value Map.empty (Some []) ''AWS_REGION'' = None"
    by (simp add: source_value_def dotenv_values_def)
  have v2: "source_value [''AWS_REGION'' \<mapsto> ''eu-west-1''] (Some [(''AWS_REGION'', '''')])
              ''AWS_REGION'' = Some ''eu-west-1''"
    by (simp add: source_value_def)
  have v3: "source_value Map.empty (Some [(''AWS_REGION'', '''')]) ''AWS_REGION'' = Some ''''"
    by (simp add: source_value_def dotenv_values_def)
  have s1: "Settings_init Map.empty (Some []) = Inr Settings_defaults"
    by (simp add: Settings_init_def x field_str_def source_value_def dotenv_values_def
                  Settings_defaults_def)
  have s2: "Settings_init [''AWS_REGION'' \<mapsto> ''eu-west-1''] (Some [(''AWS_REGION'', '''')])
              = Inr (Settings_defaults\<lparr>AWS_REGION := ''eu-west-1''\<rparr>)"
    by (simp add: Settings_init_def x field_str_def source_value_def dotenv_values_def
                  Settings_defaults_def)
  have s3: "Settings_init Map.empty (Some [(''AWS_REGION'', '''')])
              = Inr (Settings_defaults\<lparr>AWS_REGION := ''''\<rparr>)"
    by (simp add: Settings_init_def x field_str_def source_value_def dotenv_values_def
                  Settings_defaults_def)
  have r1: "AWS_REGION Settings_defaults = ''us-east-1''"
    using region_supplied_or_default [of Map.empty "Some []"] unfolding s1 v1 by simp
  have "AWS_REGION (Settings_defaults\<lparr>AWS_REGION := ''eu-west-1''\<rparr>) = ''eu-west-1''"
    using region_supplied_or_default
            [of "[''AWS_REGION'' \<mapsto> ''eu-west-1'']" "Some [(''AWS_REGION'', '''')]"]
    unfolding s2 v2 by simp
  moreover have "AWS_REGION (Settings_defaults\<lparr>AWS_REGION := ''''\<rparr>) = ''''"
    using region_supplied_or_default [of Map.empty "Some [(''AWS_REGION'', '''')]"]
    unfolding s3 v3 by simp
  ultimately show ?thesis using v1 v2 v3 s1 s2 s3 r1 by blast
qed

text \<open>
  C4. With exactly one recognised key set in the environment, to any value \<open>v\<close>, and
  no override file, the record is the record of defaults with that one field replaced
  by \<open>v\<close>: every other field keeps its default. One equation per key.
\<close>

theorem single_override:
  "Settings_init [''SUPABASE_URL'' \<mapsto> v] None
     = Inr (Settings_defaults\<lparr>SUPABASE_URL := Some v\<rparr>)
   \<and> Settings_init [''SUPABASE_SERVICE_KEY'' \<mapsto> v] None
     = Inr (Settings_defaults\<lparr>SUPABASE_SERVICE_KEY := Some v\<rparr>)
   \<and> Settings_init [''DATABASE_URL'' \<mapsto> v] None
     = Inr (Settings_defaults\<lparr>DATABASE_URL := Some v\<rparr>)
   \<and> Settings_init [''ANTHROPIC_API_KEY'' \<mapsto> v] None
     = Inr (Settings_defaults\<lparr>ANTHROPIC_API_KEY := Some v\<rparr>)
   \<and> Settings_init [''SLACK_BOT_TOKEN'' \<mapsto> v] None
     = Inr (Settings_defaults\<lparr>SLACK_BOT_TOKEN := Some v\<rparr>)
   \<and> Settings_init [''SLACK_APP_TOKEN'' \<mapsto> v] None
     = Inr (Settings_defaults\<lparr>SLACK_APP_TOKEN := Some v\<rparr>)
   \<and> Settings_init [''SLACK_SIGNING_SECRET'' \<mapsto> v] None
     = Inr (Settings_defaults\<lparr>SLACK_SIGNING_SECRET := Some v\<rparr>)
   \<and> Settings_init [''AWS_ACCESS_KEY_ID'' \<mapsto> v] None
     = Inr (Settings_defaults\<lparr>AWS_ACCESS_KEY_ID := Some v\<rparr>)
   \<and> Settings_init [''AWS_SECRET_ACCESS_KEY'' \<mapsto> v] None
     = Inr (Settings_defaults\<lparr>AWS_SECRET_ACCESS_KEY := Some v\<rparr>)
   \<and> Settings_init [''AWS_REGION'' \<mapsto> v] None
     = Inr (Settings_defaults\<lparr>AWS_REGION := v\<rparr>)
   \<and> Settings_init [''SES_EMAIL_ADDRESS'' \<mapsto> v] None
     = Inr (Settings_defaults\<lparr>SES_EMAIL_ADDRESS := Some v\<rparr>)
   \<and> Settings_init [''SECRET_KEY'' \<mapsto> v] None
     = Inr (Settings_defaults\<lparr>SECRET_KEY := v\<rparr>)
   \<and> Settings_init [''ENVIRONMENT'' \<mapsto> v] None
     = Inr (Settings_defaults\<lparr>ENVIRONMENT := v\<rparr>)"
  by (simp add: Settings_init_def field_str_def source_value_def Settings_defaults_def)







section \<open>What the HTTP service answers\<close>

lemma send_status_code [simp]: "status_code (send rel hs origin resp) = status_code resp"
  by (simp add: send_def Let_def)

lemma send_content [simp]: "content (send rel hs origin resp) = content resp"
  by (simp add: send_def Let_def)

lemma send_without_origin_status_code [simp]:
  "status_code (send_without_origin rel resp) = status_code resp"
  by (simp add: send_without_origin_def)

lemma send_without_origin_content [simp]:
  "content (send_without_origin rel resp) = content resp"
  by (simp add: send_without_origin_def)

lemma CORSMiddleware_GET:
  assumes "req_method req = ''GET''"
  shows "CORSMiddleware rel inner req =
          (case map_of (headers req) ''origin'' of
             None \<Rightarrow> (case inner req of Inl exn \<Rightarrow> Inl exn
                         | Inr resp \<Rightarrow> Inr (send_without_origin rel resp))
           | Some origin \<Rightarrow> (case inner req of Inl exn \<Rightarrow> Inl exn
                                | Inr resp \<Rightarrow> Inr (send rel (headers req) origin resp)))"
  using assms by (simp add: CORSMiddleware_def split: option.splits)




text \<open>
  C5. Every \<^verbatim>\<open>GET /\<close> request, whatever its headers and body, whatever the session
  provider would do, whatever the other routes are and whatever the release of the
  framework, is answered with status 200 and the body
  \<^verbatim>\<open>{"message": "AI Concierge API", "status": "running"}\<close>.
\<close>

theorem root_ok:
  assumes "req_method req = ''GET''" and "path req = ''/''"
  shows "status_code (app rel other get_db req) = 200
         \<and> content (app rel other get_db req)
             = JSON [(''message'', ''AI Concierge API''), (''status'', ''running'')]"
  using assms
  by (simp add: app_def ServerErrorMiddleware_def CORSMiddleware_GET router_def
                JSONResponse_def root_def split: option.splits)

theorem root_ok_witness:
  "status_code (app release_0_46 not_found (Inl () :: unit + unit)
      \<lparr>req_method = ''GET'', path = ''/'',
        headers = [(''origin'', ''https://example.org''), (''cookie'', ''a=b'')],
        body = ''ignored''\<rparr>) = 200
   \<and> content (app release_0_46 not_found (Inl () :: unit + unit)
      \<lparr>req_method = ''GET'', path = ''/'',
        headers = [(''origin'', ''https://example.org''), (''cookie'', ''a=b'')],
        body = ''ignored''\<rparr>)
       = JSON [(''message'', ''AI Concierge API''), (''status'', ''running'')]"
  using root_ok [of "\<lparr>req_method = ''GET'', path = ''/'',
        headers = [(''origin'', ''https://example.org''), (''cookie'', ''a=b'')],
        body = ''ignored''\<rparr>" release_0_46 not_found "Inl () :: unit + unit"]
  by simp

text \<open>
  C6. Every \<^verbatim>\<open>GET /health\<close> request for which the session provider yields a session
  is answered with status 200 and the body
  \<^verbatim>\<open>{"status": "healthy", "database": "connected"}\<close>, and the handler leaves the
  session as it received it: it runs no query on it.
\<close>

theorem health_ok:
  assumes "req_method req = ''GET''" and "path req = ''/health''" and "get_db = Inr db"
  shows "status_code (app rel other get_db req) = 200
         \<and> content (app rel other get_db req)
             = JSON [(''status'', ''healthy''), (''database'', ''connected'')]
         \<and> snd (health_check db) = db"
  using assms
  by (simp add: app_def ServerErrorMiddleware_def CORSMiddleware_GET router_def
                JSONResponse_def health_check_def split: option.splits)

theorem health_ok_witness:
  "status_code (app release_0_46 not_found (Inr (0::nat) :: unit + nat)
      \<lparr>req_method = ''GET'', path = ''/health'', headers = [], body = []\<rparr>) = 200
   \<and> content (app release_0_46 not_found (Inr (0::nat) :: unit + nat)
      \<lparr>req_method = ''GET'', path = ''/health'', headers = [], body = []\<rparr>)
       = JSON [(''status'', ''healthy''), (''database'', ''connected'')]"
  using health_ok [of "\<lparr>req_method = ''GET'', path = ''/health'', headers = [], body = []\<rparr>"
                      "Inr (0::nat) :: unit + nat" 0 release_0_46 not_found]
  by simp

text \<open>
  C10. The body that \<^verbatim>\<open>health_check\<close> returns does not depend on the session: two
  sessions give the same body, and the whole application answers any request in the
  same way whichever of the two sessions the provider yields.
\<close>

theorem health_session_independent:
  "fst (health_check db1) = fst (health_check db2)
   \<and> app rel other (Inr db1 :: 'e + 'db) req = app rel other (Inr db2 :: 'e + 'db) req"
proof -
  have r: "(router other (Inr db1) :: request \<Rightarrow> 'e + response) = router other (Inr db2)"
    by (rule ext) (simp add: router_def health_check_def)
  show ?thesis
    unfolding app_def r by (simp add: health_check_def)
qed




end
